theory Spec2Isabelle
  imports Main "HOL-Library.Char_ord" "HOL-Library.List_Lexorder" "HOL-Library.Sublist"
begin

section \<open>Python values\<close>

text \<open>
  The scraper works on dynamically typed values: what \<^verbatim>\<open>json.loads\<close> returns and the
  dict literals the scraper builds. A dict is an association list in insertion order;
  Python dicts have distinct keys, which is what \<^verbatim>\<open>json.loads\<close> produces.
  Strings are byte strings here: the model covers ASCII text, where Python's
  \<^verbatim>\<open>\d\<close>, \<^verbatim>\<open>\s\<close>, \<^verbatim>\<open>strip\<close>, \<^verbatim>\<open>lower\<close> and \<^verbatim>\<open>isdigit\<close> act as defined below.
  A float \<open>PFloat m e\<close> stands for the finite double \<open>m * 2 ^ e\<close>; no function here
  computes with floats.
\<close>

datatype pyval =
    PNone
  | PBool bool
  | PInt int
  | PFloat int int
  | PStr string
  | PList "pyval list"
  | PDict "(string \<times> pyval) list"

type_synonym pydict = "(string \<times> pyval) list"

fun truthy :: "pyval \<Rightarrow> bool" where
  "truthy PNone = False"
| "truthy (PBool b) = b"
| "truthy (PInt i) = (i \<noteq> 0)"
| "truthy (PFloat m e) = (m \<noteq> 0)"
| "truthy (PStr s) = (s \<noteq> [])"
| "truthy (PList xs) = (xs \<noteq> [])"
| "truthy (PDict d) = (d \<noteq> [])"

definition dict_get :: "pydict \<Rightarrow> string \<Rightarrow> pyval option" where
  "dict_get d k = map_of d k"

text \<open>\<^verbatim>\<open>d.get(k, default)\<close>\<close>

definition get_or :: "pydict \<Rightarrow> string \<Rightarrow> pyval \<Rightarrow> pyval" where
  "get_or d k dflt = (case dict_get d k of None \<Rightarrow> dflt | Some v \<Rightarrow> v)"

text \<open>\<^verbatim>\<open>k in d and isinstance(d[k], dict)\<close>, giving the dict\<close>

definition dict_at :: "pydict \<Rightarrow> string \<Rightarrow> pydict option" where
  "dict_at d k = (case dict_get d k of Some (PDict x) \<Rightarrow> Some x | _ \<Rightarrow> None)"

definition str_of :: "pyval \<Rightarrow> string option" where
  "str_of v = (case v of PStr s \<Rightarrow> Some s | _ \<Rightarrow> None)"

text \<open>\<^verbatim>\<open>d[k] = v\<close>: an existing key keeps its place, a new key goes last.\<close>

fun dict_set :: "pydict \<Rightarrow> string \<Rightarrow> pyval \<Rightarrow> pydict" where
  "dict_set [] k v = [(k, v)]"
| "dict_set (p # ps) k v = (if fst p = k then (k, v) # ps else p # dict_set ps k v)"

text \<open>\<^verbatim>\<open>d.update(e)\<close>\<close>

definition dict_update :: "pydict \<Rightarrow> pydict \<Rightarrow> pydict" where
  "dict_update d e = fold (\<lambda>kv acc. dict_set acc (fst kv) (snd kv)) e d"

definition keys :: "pydict \<Rightarrow> string list" where
  "keys d = map fst d"

section \<open>Python strings\<close>

definition is_digit :: "char \<Rightarrow> bool" where
  "is_digit c = (c \<in> set ''0123456789'')"

definition is_space :: "char \<Rightarrow> bool" where
  "is_space c = (c \<in> set [CHR '' '', CHR 0x09, CHR 0x0A, CHR 0x0B, CHR 0x0C, CHR 0x0D,
                             CHR 0x1C, CHR 0x1D, CHR 0x1E, CHR 0x1F])"

definition is_word :: "char \<Rightarrow> bool" where
  "is_word c = (c \<in> set ''abcdefghijklmnopqrstuvwxyzABCDEFGHIJKLMNOPQRSTUVWXYZ0123456789_'')"

text \<open>\<^verbatim>\<open>s.strip()\<close> and \<^verbatim>\<open>s.strip(chars)\<close>\<close>

definition strip_with :: "(char \<Rightarrow> bool) \<Rightarrow> string \<Rightarrow> string" where
  "strip_with p s = rev (dropWhile p (rev (dropWhile p s)))"

definition strip :: "string \<Rightarrow> string" where
  "strip s = strip_with is_space s"

definition strip_chars :: "string \<Rightarrow> string \<Rightarrow> string" where
  "strip_chars cs s = strip_with (\<lambda>c. c \<in> set cs) s"

definition startswith :: "string \<Rightarrow> string \<Rightarrow> bool" where
  "startswith s p = (take (length p) s = p)"

text \<open>\<^verbatim>\<open>p in s\<close> for strings\<close>

fun contains :: "string \<Rightarrow> string \<Rightarrow> bool" where
  "contains p [] = (p = [])"
| "contains p (c # cs) = (startswith (c # cs) p \<or> contains p cs)"

definition lower_char :: "char \<Rightarrow> char" where
  "lower_char c =
     (case map_of (zip ''ABCDEFGHIJKLMNOPQRSTUVWXYZ'' ''abcdefghijklmnopqrstuvwxyz'') c of
        None \<Rightarrow> c | Some l \<Rightarrow> l)"

definition lower :: "string \<Rightarrow> string" where
  "lower s = map lower_char s"

text \<open>\<^verbatim>\<open>s.replace(',', '')\<close>\<close>

definition remove_commas :: "string \<Rightarrow> string" where
  "remove_commas s = filter (\<lambda>c. c \<noteq> CHR '','') s"

definition isdigit :: "string \<Rightarrow> bool" where
  "isdigit s = (s \<noteq> [] \<and> list_all is_digit s)"

definition digit_val :: "char \<Rightarrow> int" where
  "digit_val c =
     (case map_of (zip ''0123456789'' [0, 1, 2, 3, 4, 5, 6, 7, 8, 9]) c of
        None \<Rightarrow> 0 | Some v \<Rightarrow> v)"

text \<open>\<^verbatim>\<open>int(s)\<close> on a string of decimal digits; \<open>None\<close> is the ValueError.\<close>

definition py_int :: "string \<Rightarrow> int option" where
  "py_int s = (if isdigit s then Some (foldl (\<lambda>a c. 10 * a + digit_val c) 0 s) else None)"

fun show_nat :: "nat \<Rightarrow> string" where
  "show_nat n =
     (if n < 10 then [''0123456789'' ! n]
      else show_nat (n div 10) @ [''0123456789'' ! (n mod 10)])"

declare show_nat.simps [simp del]

fun group3 :: "string \<Rightarrow> string" where
  "group3 (a # b # c # d # rest) = a # b # c # CHR '','' # group3 (d # rest)"
| "group3 s = s"

text \<open>The format \<^verbatim>\<open>f"{n:,}"\<close>: decimal digits with a comma before every group of three.\<close>

definition format_commas :: "int \<Rightarrow> string" where
  "format_commas n =
     (if n < 0 then CHR ''-'' # rev (group3 (rev (show_nat (nat (- n)))))
      else rev (group3 (rev (show_nat (nat n)))))"

definition join_sp :: "string list \<Rightarrow> string" where
  "join_sp xs = (case xs of [] \<Rightarrow> [] | y # ys \<Rightarrow> foldl (\<lambda>a b. a @ '' '' @ b) y ys)"

section \<open>Regular expressions\<close>

text \<open>
  The patterns of the scraper use literals, the classes \<^verbatim>\<open>\d \s \w [\d,]\<close>, sequence,
  alternation, greedy repetition and \<^verbatim>\<open>$\<close>. \<open>rmatch r s\<close> lists, in the order a
  backtracking matcher tries them, what is left of \<open>s\<close> after each way \<open>r\<close> matches a
  prefix of it; \<open>re_search\<close> is \<^verbatim>\<open>re.search\<close>: the first match at the leftmost position.
\<close>

datatype cclass = Lit char | Digit | Space | Word | Union cclass cclass

datatype rexp = Eps | Sym cclass | Seq rexp rexp | Alt rexp rexp | Star rexp | Eos

fun in_class :: "cclass \<Rightarrow> char \<Rightarrow> bool" where
  "in_class (Lit a) c = (c = a)"
| "in_class Digit c = is_digit c"
| "in_class Space c = is_space c"
| "in_class Word c = is_word c"
| "in_class (Union a b) c = (in_class a c \<or> in_class b c)"

fun rmatch :: "rexp \<Rightarrow> string \<Rightarrow> string list" where
  "rmatch Eps s = [s]"
| "rmatch (Sym k) s = (case s of [] \<Rightarrow> [] | c # cs \<Rightarrow> if in_class k c then [cs] else [])"
| "rmatch (Seq r1 r2) s = concat (map (rmatch r2) (rmatch r1 s))"
| "rmatch (Alt r1 r2) s = rmatch r1 s @ rmatch r2 s"
| "rmatch (Star r) s =
     concat (map (\<lambda>t. if length t < length s then rmatch (Star r) t else []) (rmatch r s)) @ [s]"
| "rmatch Eos s = (if s = [] \<or> s = [CHR 0x0A] then [s] else [])"

declare rmatch.simps(5) [simp del]

text \<open>The text matched (group 0), or \<open>None\<close>.\<close>

fun re_search :: "rexp \<Rightarrow> string \<Rightarrow> string option" where
  "re_search r [] = (case rmatch r [] of [] \<Rightarrow> None | t # _ \<Rightarrow> Some [])"
| "re_search r (c # cs) =
     (case rmatch r (c # cs) of
        [] \<Rightarrow> re_search r cs
      | t # _ \<Rightarrow> Some (take (length (c # cs) - length t) (c # cs)))"

definition re_found :: "rexp \<Rightarrow> string \<Rightarrow> bool" where
  "re_found r s = (re_search r s \<noteq> None)"

definition lit :: "string \<Rightarrow> rexp" where
  "lit s = foldr (\<lambda>c r. Seq (Sym (Lit c)) r) s Eps"

definition plus :: "rexp \<Rightarrow> rexp" where
  "plus r = Seq r (Star r)"

definition opt :: "rexp \<Rightarrow> rexp" where
  "opt r = Alt r Eps"

text \<open>\<^verbatim>\<open>\d{3}\<close>, \<^verbatim>\<open>\d{4}\<close>, \<^verbatim>\<open>\d{5}\<close> and the greedy \<^verbatim>\<open>\d{1,3}\<close>\<close>

definition digits3 :: rexp where
  "digits3 = Seq (Sym Digit) (Seq (Sym Digit) (Sym Digit))"

definition digits4 :: rexp where
  "digits4 = Seq (Sym Digit) digits3"

definition digits5 :: rexp where
  "digits5 = Seq (Sym Digit) digits4"

definition digits1to3 :: rexp where
  "digits1to3 = Seq (Sym Digit) (opt (Seq (Sym Digit) (opt (Sym Digit))))"



text \<open>\<^verbatim>\<open>Goodyear, AZ \d{5}\<close>\<close>

definition address_re :: rexp where
  "address_re = Seq (lit ''Goodyear, AZ '') digits5"

definition description_re :: rexp where
  "description_re = lit ''Located in an amenity-rich master-planned community''"




text \<open>\<^verbatim>\<open>(\d{1,3}(?:,\d{3})*)\<close>: its only group is the whole match.\<close>

definition sqft_num_re :: rexp where
  "sqft_num_re = Seq digits1to3 (Star (Seq (lit '','') digits3))"

text \<open>\<^verbatim>\<open>\d{1,3}(?:,\d{3})*\s*sqft\<close>\<close>

definition sqft_text_re :: rexp where
  "sqft_text_re = Seq sqft_num_re (Seq (Star (Sym Space)) (lit ''sqft''))"

text \<open>\<^verbatim>\<open>/(\w+)$\<close>: group 1 is the match without its first character.\<close>

definition id_re :: rexp where
  "id_re = Seq (lit ''/'') (Seq (plus (Sym Word)) Eos)"

section \<open>Parsed documents\<close>

text \<open>
  What the HTML parser returns: a tree of tags and strings. A tag has a name, its
  \<^verbatim>\<open>class\<close> attribute as the list of class tokens (empty when the attribute is absent),
  its other attributes, and its children. \<open>Text\<close> is an ordinary string of the page;
  \<open>Comment\<close> stands for the strings that \<^verbatim>\<open>.text\<close> leaves out (comments, declarations):
  \<^verbatim>\<open>.string\<close> and a search by \<^verbatim>\<open>text=\<close> see both kinds. The document itself is a tag
  whose children are the top-level nodes.
\<close>

datatype node =
    Text string
  | Comment string
  | Elem string "string list" "(string \<times> string) list" "node list"

fun descendants :: "node \<Rightarrow> node list" where
  "descendants (Elem t cs as kids) = concat (map (\<lambda>k. k # descendants k) kids)"
| "descendants (Text s) = []"
| "descendants (Comment s) = []"

fun is_tag :: "string \<Rightarrow> node \<Rightarrow> bool" where
  "is_tag t (Elem t' cs as kids) = (t' = t)"
| "is_tag t n = False"

fun classes :: "node \<Rightarrow> string list" where
  "classes (Elem t cs as kids) = cs"
| "classes n = []"

text \<open>\<^verbatim>\<open>tag.get(k)\<close>; \<^verbatim>\<open>tag.has_attr(k)\<close> is \<open>attr n k \<noteq> None\<close>.\<close>

fun attr :: "node \<Rightarrow> string \<Rightarrow> string option" where
  "attr (Elem t cs as kids) k = map_of as k"
| "attr n k = None"

definition has_class :: "string \<Rightarrow> node \<Rightarrow> bool" where
  "has_class c n = (c \<in> set (classes n))"

text \<open>\<^verbatim>\<open>tag.text\<close>\<close>

fun get_text :: "node \<Rightarrow> string" where
  "get_text (Text s) = s"
| "get_text (Comment s) = []"
| "get_text (Elem t cs as kids) = concat (map get_text kids)"

text \<open>\<^verbatim>\<open>tag.string\<close>: defined through a chain of only children.\<close>

fun node_string :: "node \<Rightarrow> string option" where
  "node_string (Text s) = Some s"
| "node_string (Comment s) = Some s"
| "node_string (Elem t cs as [k]) = node_string k"
| "node_string (Elem t cs as kids) = None"

text \<open>\<^verbatim>\<open>find_all\<close> and \<^verbatim>\<open>find\<close> over the descendants, in document order.\<close>

definition find_all :: "(node \<Rightarrow> bool) \<Rightarrow> node \<Rightarrow> node list" where
  "find_all p n = filter p (descendants n)"

definition find_first :: "(node \<Rightarrow> bool) \<Rightarrow> node \<Rightarrow> node option" where
  "find_first p n = (case find_all p n of [] \<Rightarrow> None | x # _ \<Rightarrow> Some x)"

fun string_of :: "node \<Rightarrow> string option" where
  "string_of (Text s) = Some s"
| "string_of (Comment s) = Some s"
| "string_of n = None"

text \<open>\<^verbatim>\<open>find_all(text=re)\<close> and \<^verbatim>\<open>find(text=re)\<close>: the strings the pattern is found in.\<close>

definition find_all_text :: "rexp \<Rightarrow> node \<Rightarrow> string list" where
  "find_all_text r n = filter (re_found r) (List.map_filter string_of (descendants n))"

definition find_text :: "rexp \<Rightarrow> node \<Rightarrow> string option" where
  "find_text r n = (case find_all_text r n of [] \<Rightarrow> None | x # _ \<Rightarrow> Some x)"

text \<open>\<^verbatim>\<open>find(name, string=re)\<close>: a tag of that name whose \<^verbatim>\<open>.string\<close> the pattern is found in.\<close>

definition tag_with_string :: "string \<Rightarrow> rexp \<Rightarrow> node \<Rightarrow> bool" where
  "tag_with_string t r n =
     (is_tag t n \<and> (case node_string n of None \<Rightarrow> False | Some s \<Rightarrow> re_found r s))"

text \<open>
  A function given as \<^verbatim>\<open>class_=\<close> is tried on each class token and then on the tokens
  joined by spaces; on a tag with no class it is tried on \<^verbatim>\<open>None\<close>. The two functions of
  the scraper, \<^verbatim>\<open>lambda x: x and w in x.lower()\<close>, are false on \<^verbatim>\<open>None\<close> and on the empty
  string.
\<close>

definition class_lambda :: "string \<Rightarrow> string \<Rightarrow> bool" where
  "class_lambda w x = (x \<noteq> [] \<and> contains w (lower x))"

definition class_matches :: "(string \<Rightarrow> bool) \<Rightarrow> node \<Rightarrow> bool" where
  "class_matches f n = (list_ex f (classes n) \<or> f (join_sp (classes n)))"

definition home_design :: "node \<Rightarrow> bool" where
  "home_design n = (is_tag ''div'' n \<and> class_matches (class_lambda ''home-design'') n)"


section \<open>What the scraper takes from outside\<close>

text \<open>
  The libraries and the browser are outside the repository. \<open>json_loads\<close> is
  \<^verbatim>\<open>json.loads\<close> (\<open>None\<close> when it raises); \<open>py_format\<close> is how an f-string renders a
  value that is not a string; \<open>now\<close> is the formatted clock reading; \<open>attempts t url w\<close>
  is what the browser does at the \<open>t\<close>-th attempt to load a page: whether
  \<^verbatim>\<open>_setup_driver\<close> succeeds if it is called, and the document the body of the
  \<^verbatim>\<open>try\<close> produces (\<open>None\<close> when anything in it raises: navigation, a wait, an empty
  page source).
\<close>

datatype setup_result = Ready | Broken bool

record attempt =
  setup_driver :: setup_result
  page :: "node option"

record env =
  json_loads :: "string \<Rightarrow> pyval option"
  py_format :: "pyval \<Rightarrow> string"
  now :: string
  attempts :: "nat \<Rightarrow> string \<Rightarrow> string \<Rightarrow> attempt"

definition fstr :: "env \<Rightarrow> pyval \<Rightarrow> string" where
  "fstr env v = (case v of PStr s \<Rightarrow> s | _ \<Rightarrow> py_format env v)"

section \<open>Field extractors\<close>






fun collect_sqft :: "node list \<Rightarrow> int set \<Rightarrow> int set option" where
  "collect_sqft [] acc = Some acc"
| "collect_sqft (design # rest) acc =
     (case find_text sqft_text_re design of
        None \<Rightarrow> collect_sqft rest acc
      | Some sqft_text \<Rightarrow>
          if sqft_text = [] then collect_sqft rest acc
          else (case re_search sqft_num_re sqft_text of
                  None \<Rightarrow> collect_sqft rest acc
                | Some sqft \<Rightarrow>
                    (case py_int (remove_commas sqft) of
                       None \<Rightarrow> None
                     | Some v \<Rightarrow> collect_sqft rest (insert v acc))))"

definition extract_sqft_range :: "node \<Rightarrow> pyval" where
  "extract_sqft_range soup =
     (case collect_sqft (find_all home_design soup) {} of
        None \<Rightarrow> PNone
      | Some sqft_values \<Rightarrow>
          if sqft_values \<noteq> {}
          then PStr (format_commas (Min sqft_values) @ '' - '' @ format_commas (Max sqft_values))
          else PNone)"




definition extract_address :: "node \<Rightarrow> pyval" where
  "extract_address soup =
     (case find_first (tag_with_string ''div'' address_re) soup of
        None \<Rightarrow> PStr []
      | Some address_element \<Rightarrow> PStr (strip (get_text address_element)))"

definition extract_description :: "node \<Rightarrow> pyval" where
  "extract_description soup =
     (case find_first (tag_with_string ''div'' description_re) soup of
        None \<Rightarrow> PStr []
      | Some desc_element \<Rightarrow> PStr (strip (get_text desc_element)))"

text \<open>\<^verbatim>\<open>img.get('src') and not img['src'].startswith('data:')\<close>\<close>

definition usable_src :: "node \<Rightarrow> string option" where
  "usable_src img =
     (case attr img ''src'' of
        None \<Rightarrow> None
      | Some s \<Rightarrow> if s \<noteq> [] \<and> \<not> startswith s ''data:'' then Some s else None)"





section \<open>Structured metadata\<close>

definition jsonld_types :: "string list" where
  "jsonld_types = [''SingleFamilyResidence'', ''Residence'', ''WebPage'', ''Place'', ''Organization'']"

definition ld_script :: "node \<Rightarrow> bool" where
  "ld_script n = (is_tag ''script'' n \<and> attr n ''type'' = Some ''application/ld+json'')"

text \<open>
  The block a script contributes: \<open>None\<close> when \<^verbatim>\<open>script.string\<close> is \<^verbatim>\<open>None\<close> or does not
  parse (the \<^verbatim>\<open>except\<close> goes on to the next script), when the value is not a dict, or when
  its \<^verbatim>\<open>@type\<close> is not one of the five.
\<close>

definition accepted :: "env \<Rightarrow> node \<Rightarrow> pydict option" where
  "accepted env script =
     (case node_string script of
        None \<Rightarrow> None
      | Some s \<Rightarrow>
          (case json_loads env s of
             Some (PDict data) \<Rightarrow>
               (case dict_get data ''@type'' of
                  Some (PStr t) \<Rightarrow> if t \<in> set jsonld_types then Some data else None
                | _ \<Rightarrow> None)
           | _ \<Rightarrow> None))"

definition merge_blocks :: "env \<Rightarrow> node list \<Rightarrow> pydict \<Rightarrow> pydict" where
  "merge_blocks env scripts jsonld_data =
     fold (\<lambda>script acc. case accepted env script of None \<Rightarrow> acc | Some data \<Rightarrow> dict_update acc data)
       scripts jsonld_data"

definition extract_jsonld_data :: "env \<Rightarrow> node \<Rightarrow> pydict" where
  "extract_jsonld_data env soup = merge_blocks env (find_all ld_script soup) []"

section \<open>Fetching a page\<close>

text \<open>
  The state of a scraper: whether \<^verbatim>\<open>self.driver\<close> is set, how many attempts have been
  made, and what the retry protocol has done so far: sessions created, sleeps before a
  retry (in seconds), sessions quit.
\<close>

datatype event = Setup | Sleep nat | Quit

record world =
  driver :: bool
  clock :: nat
  log :: "event list"

definition max_retries :: nat where
  "max_retries = 3"

definition retry_delay :: nat where
  "retry_delay = 5"

text \<open>
  The loop \<^verbatim>\<open>for attempt in range(self.max_retries)\<close> of both scrapers; they differ in
  the sleep before a retry, \<open>backoff attempt\<close>.
\<close>

fun retry_loop ::
  "(nat \<Rightarrow> nat) \<Rightarrow> env \<Rightarrow> string \<Rightarrow> string \<Rightarrow> nat list \<Rightarrow> world \<Rightarrow> node option \<times> world" where
  "retry_loop backoff env url wait_class [] w = (None, w)"
| "retry_loop backoff env url wait_class (attempt # rest) w =
     (let out = attempts env (clock w) url wait_class;
          w0 = w\<lparr>clock := Suc (clock w)\<rparr>
      in if \<not> driver w0 \<and> setup_driver out \<noteq> Ready
         then (None, w0\<lparr>driver := (setup_driver out = Broken True)\<rparr>)
         else
           (let w1 = (if driver w0 then w0
                      else w0\<lparr>driver := True, log := log w0 @ [Setup]\<rparr>)
            in case page out of
                 Some soup \<Rightarrow> (Some soup, w1)
               | None \<Rightarrow>
                   if attempt < max_retries - 1
                   then retry_loop backoff env url wait_class rest
                          (w1\<lparr>driver := False, log := log w1 @ [Sleep (backoff attempt), Quit]\<rparr>)
                   else (None, w1)))"

text \<open>\<^verbatim>\<open>TollBrothersDetailScraper._safe_get_page\<close>: \<^verbatim>\<open>time.sleep(self.retry_delay * (attempt + 1))\<close>\<close>

definition safe_get_page :: "env \<Rightarrow> string \<Rightarrow> string \<Rightarrow> world \<Rightarrow> node option \<times> world" where
  "safe_get_page env url wait_class w =
     retry_loop (\<lambda>attempt. retry_delay * (attempt + 1)) env url wait_class [0..<max_retries] w"

text \<open>\<^verbatim>\<open>TollBrothersScraper._safe_get_page\<close>: \<^verbatim>\<open>time.sleep(self.retry_delay)\<close>\<close>

definition links_safe_get_page :: "env \<Rightarrow> string \<Rightarrow> string \<Rightarrow> world \<Rightarrow> node option \<times> world" where
  "links_safe_get_page env url wait_class w =
     retry_loop (\<lambda>attempt. retry_delay) env url wait_class [0..<max_retries] w"

section \<open>Homesites\<close>

definition base_url :: string where
  "base_url = ''https://www.tollbrothers.com''"

text \<open>The CSS selectors of the scraper: a tag name with one or two classes.\<close>

definition tag_class :: "string \<Rightarrow> string \<Rightarrow> node \<Rightarrow> bool" where
  "tag_class t c n = (is_tag t n \<and> has_class c n)"

definition card_sel :: "node \<Rightarrow> bool" where
  "card_sel n =
     (is_tag ''div'' n \<and> has_class ''modelCardWrap__adjust'' n
        \<and> has_class ''ModelCard_modelCardContainer__lXz5R'' n)"

definition heading_sel :: "node \<Rightarrow> bool" where
  "heading_sel n = (is_tag ''h1'' n \<or> is_tag ''h2'' n \<or> is_tag ''h3'' n)"

text \<open>\<^verbatim>\<open>x.text.strip() if x else None\<close>\<close>

definition text_or_none :: "node option \<Rightarrow> pyval" where
  "text_or_none x = (case x of None \<Rightarrow> PNone | Some n \<Rightarrow> PStr (strip (get_text n)))"

text \<open>
  \<^verbatim>\<open>f"{addr.get('streetAddress', '')}, {addr.get('addressLocality', '')},
  {addr.get('addressRegion', '')} {addr.get('postalCode', '')}".strip(', ')\<close>
\<close>

definition format_address :: "env \<Rightarrow> pydict \<Rightarrow> string" where
  "format_address env addr =
     strip_chars '', ''
       (fstr env (get_or addr ''streetAddress'' (PStr [])) @ '', '' @
        fstr env (get_or addr ''addressLocality'' (PStr [])) @ '', '' @
        fstr env (get_or addr ''addressRegion'' (PStr [])) @ '' '' @
        fstr env (get_or addr ''postalCode'' (PStr [])))"

text \<open>The images of the JSON-LD mapping: a list as it is, a string as a one-element list.\<close>

definition jsonld_images :: "pydict \<Rightarrow> pyval list \<Rightarrow> pyval list" where
  "jsonld_images jsonld images =
     (case dict_get jsonld ''image'' of
        Some (PList xs) \<Rightarrow> xs
      | Some (PStr s) \<Rightarrow> [PStr s]
      | _ \<Rightarrow> images)"

text \<open>The scan of every \<^verbatim>\<open>img\<close> of the detail page.\<close>

definition add_image :: "node \<Rightarrow> pyval list \<Rightarrow> pyval list" where
  "add_image img images =
     (case usable_src img of
        None \<Rightarrow> images
      | Some s \<Rightarrow> if PStr s \<notin> set images then images @ [PStr s] else images)"

definition more_images :: "node \<Rightarrow> pyval list \<Rightarrow> pyval list" where
  "more_images detail_soup images = fold add_image (find_all (is_tag ''img'') detail_soup) images"

record detail_info =
  hs_latitude :: pyval
  hs_longitude :: pyval
  hs_description :: pyval
  hs_images :: "pyval list"
  hs_plan :: pyval
  hs_address :: pyval
  hs_id :: pyval

text \<open>
  The block \<^verbatim>\<open>if jsonld:\<close>. \<open>None\<close> is the TypeError of \<^verbatim>\<open>re.search\<close> on a \<^verbatim>\<open>url\<close> that
  is not a string, which the \<^verbatim>\<open>except\<close> of the model_card catches.
\<close>

definition jsonld_detail :: "env \<Rightarrow> pydict \<Rightarrow> detail_info \<Rightarrow> detail_info option" where
  "jsonld_detail env jsonld d =
     (if jsonld = [] then Some d
      else
        (let a = (case dict_at jsonld ''geo'' of
                    None \<Rightarrow> d
                  | Some geo \<Rightarrow>
                      d\<lparr>hs_latitude := get_or geo ''latitude'' PNone,
                        hs_longitude := get_or geo ''longitude'' PNone\<rparr>);
             b = a\<lparr>hs_description := get_or jsonld ''description'' PNone\<rparr>;
             c = (case dict_at jsonld ''address'' of
                    None \<Rightarrow> b
                  | Some addr \<Rightarrow> b\<lparr>hs_address := PStr (format_address env addr)\<rparr>);
             e = c\<lparr>hs_images := jsonld_images jsonld (hs_images c)\<rparr>
         in case dict_get jsonld ''url'' of
              None \<Rightarrow> Some e
            | Some v \<Rightarrow>
                (case str_of v of
                   None \<Rightarrow> None
                 | Some u \<Rightarrow>
                     (case re_search id_re u of
                        None \<Rightarrow> Some e
                      | Some m \<Rightarrow> Some (e\<lparr>hs_id := PStr (drop 1 m)\<rparr>)))))"

text \<open>The block \<^verbatim>\<open>if detail_soup:\<close>\<close>

definition detail_page :: "env \<Rightarrow> node \<Rightarrow> detail_info \<Rightarrow> detail_info option" where
  "detail_page env detail_soup d =
     (case jsonld_detail env (extract_jsonld_data env detail_soup) d of
        None \<Rightarrow> None
      | Some a \<Rightarrow>
          (let b = (case find_first heading_sel detail_soup of
                      None \<Rightarrow> a
                    | Some plan_elem \<Rightarrow> a\<lparr>hs_plan := PStr (strip (get_text plan_elem))\<rparr>)
           in Some (if hs_images b = [] \<or> length (hs_images b) < 2
                    then b\<lparr>hs_images := more_images detail_soup (hs_images b)\<rparr>
                    else b)))"

text \<open>\<^verbatim>\<open>int(baths) if baths and baths.isdigit() else None\<close>; \<open>None\<close> is the ValueError.\<close>

definition baths_value :: "pyval \<Rightarrow> pyval option" where
  "baths_value baths =
     (case baths of
        PStr s \<Rightarrow>
          if s \<noteq> [] \<and> isdigit s
          then (case py_int s of None \<Rightarrow> None | Some i \<Rightarrow> Some (PInt i))
          else Some PNone
      | _ \<Rightarrow> Some PNone)"

text \<open>\<^verbatim>\<open>a['href'] if a and a.has_attr('href') else None\<close>\<close>

definition card_url :: "node \<Rightarrow> string option" where
  "card_url model_card =
     (case find_first (tag_class ''a'' ''ModelCard_modelCardContainer__lXz5R'') model_card of
        None \<Rightarrow> None
      | Some a \<Rightarrow> attr a ''href'')"

definition card_image :: "node \<Rightarrow> pyval" where
  "card_image model_card =
     (case find_first (tag_class ''img'' ''BlurBackgroundFill_modelCardImg__fpCCc'') model_card of
        None \<Rightarrow> PNone
      | Some img \<Rightarrow> (case attr img ''src'' of None \<Rightarrow> PNone | Some s \<Rightarrow> PStr s))"

definition card_sqft :: "node \<Rightarrow> pyval" where
  "card_sqft model_card =
     (case find_first (tag_class ''p'' ''tracking_sqftRange'') model_card of
        None \<Rightarrow> PNone
      | Some sqft \<Rightarrow> PStr (remove_commas (strip (get_text sqft))))"

text \<open>
  The body of \<^verbatim>\<open>for card in cards\<close>: the record of the model_card, or \<open>None\<close> when the model_card is
  left out (no link, or an exception). The detail page is fetched in between.
\<close>

text \<open>The link of the card, made absolute; \<open>None\<close> when there is none (\<^verbatim>\<open>if not url: continue\<close>).\<close>

definition homesite_url :: "node \<Rightarrow> string option" where
  "homesite_url model_card =
     (case card_url model_card of
        None \<Rightarrow> None
      | Some href \<Rightarrow>
          if href = [] then None
          else Some (if startswith href ''http'' then href else base_url @ href))"

definition card_images :: "node \<Rightarrow> pyval list" where
  "card_images model_card =
     (if truthy (card_image model_card) then [card_image model_card] else [])"

definition homesite_of_card :: "env \<Rightarrow> node \<Rightarrow> world \<Rightarrow> pyval option \<times> world" where
  "homesite_of_card env model_card w =
     (case homesite_url model_card of
        None \<Rightarrow> (None, w)
      | Some url \<Rightarrow>
          (let name = text_or_none (find_first (tag_class ''h4'' ''ModelCard_modelName__XzUo2'') model_card);
               price = text_or_none (find_first (tag_class ''p'' ''ModelCard_modelPrice__oqOXq'') model_card);
               beds = text_or_none (find_first (tag_class ''p'' ''tracking_bedRange'') model_card);
               baths = text_or_none (find_first (tag_class ''p'' ''tracking_bathRange'') model_card);
               sqft = card_sqft model_card;
               status = text_or_none (find_first (tag_class ''div'' ''ModelCard_modelCardCallout__MdHUW'') model_card);
               d = \<lparr>hs_latitude = PNone, hs_longitude = PNone, hs_description = PNone,
                    hs_images = card_images model_card,
                    hs_plan = PNone, hs_address = PNone, hs_id = PNone\<rparr>;
               fetched = safe_get_page env url ''body'' w
           in case (case fst fetched of
                      None \<Rightarrow> Some d
                    | Some detail_soup \<Rightarrow> detail_page env detail_soup d) of
                None \<Rightarrow> (None, snd fetched)
              | Some i \<Rightarrow>
                  (case baths_value baths of
                     None \<Rightarrow> (None, snd fetched)
                   | Some baths_int \<Rightarrow>
                       (Some (PDict
                          [(''name'', name),
                           (''plan'', hs_plan i),
                           (''id'', hs_id i),
                           (''address'', hs_address i),
                           (''price'', price),
                           (''beds'', beds),
                           (''baths'', baths_int),
                           (''sqft'', sqft),
                           (''status'', status),
                           (''image_url'', (case hs_images i of [] \<Rightarrow> PNone | x # _ \<Rightarrow> x)),
                           (''url'', PStr url),
                           (''latitude'', hs_latitude i),
                           (''longitude'', hs_longitude i),
                           (''overview'', hs_description i),
                           (''images'', PList (hs_images i))]),
                        snd fetched))))"

fun homesites_loop :: "env \<Rightarrow> node list \<Rightarrow> world \<Rightarrow> pyval list \<times> world" where
  "homesites_loop env [] w = ([], w)"
| "homesites_loop env (model_card # rest) w =
     (case homesite_of_card env model_card w of
        (r, w1) \<Rightarrow>
          (case homesites_loop env rest w1 of
             (homesites, w2) \<Rightarrow> ((case r of None \<Rightarrow> homesites | Some h \<Rightarrow> h # homesites), w2)))"

definition extract_homesites :: "env \<Rightarrow> node \<Rightarrow> world \<Rightarrow> pyval list \<times> world" where
  "extract_homesites env soup w = homesites_loop env (find_all card_sel soup) w"

section \<open>The community record\<close>












text \<open>What the retry protocol has done, read from the log.\<close>

definition delays :: "event list \<Rightarrow> nat list" where
  "delays es = concat (map (\<lambda>e. case e of Sleep d \<Rightarrow> [d] | _ \<Rightarrow> []) es)"

definition quits :: "event list \<Rightarrow> nat" where
  "quits es = length (filter (\<lambda>e. e = Quit) es)"

definition setups :: "event list \<Rightarrow> nat" where
  "setups es = length (filter (\<lambda>e. e = Setup) es)"

text \<open>A value looked up along a path of keys, as \<^verbatim>\<open>r['location']['address']['city']\<close>.\<close>

fun lookup :: "pyval \<Rightarrow> string list \<Rightarrow> pyval option" where
  "lookup v [] = Some v"
| "lookup (PDict d) (k # ks) = (case dict_get d k of None \<Rightarrow> None | Some x \<Rightarrow> lookup x ks)"
| "lookup v (k # ks) = None"



text \<open>One field of every record of a list.\<close>

definition column :: "string \<Rightarrow> pyval list \<Rightarrow> pyval option list" where
  "column k rs = map (\<lambda>r. lookup r [k]) rs"

section \<open>Example documents\<close>

definition document :: "node list \<Rightarrow> node" where
  "document kids = Elem ''[document]'' [] [] kids"

definition fresh :: world where
  "fresh = \<lparr>driver = False, clock = 0, log = []\<rparr>"

definition ld_json :: "string \<Rightarrow> node" where
  "ld_json s = Elem ''script'' [] [(''type'', ''application/ld+json'')] [Text s]"

definition empty_doc :: node where
  "empty_doc = document []"

definition sqft_plain_doc :: node where
  "sqft_plain_doc = document [Elem ''div'' [''home-design''] [] [Text ''1250 sqft'']]"

definition sqft_comma_doc :: node where
  "sqft_comma_doc = document [Elem ''div'' [''home-design''] [] [Text ''1,250 sqft'']]"

definition goodyear_doc :: node where
  "goodyear_doc = document [Elem ''div'' [] [] [Text ''123 Main St, Goodyear, AZ 85338'']]"

definition phoenix_doc :: node where
  "phoenix_doc =
     document
       [Elem ''div'' [] [] [Text ''1 Elm St, Phoenix, AZ 85001''],
        Elem ''div'' [] [] [Text ''Nestled in a quiet neighborhood'']]"

text \<open>A parser that knows the blocks of the examples and rejects everything else.\<close>

definition example_loads :: "string \<Rightarrow> pyval option" where
  "example_loads s =
     (if s = ''{\"@type\": \"Place\", \"name\": \"Avalon\", \"telephone\": \"623-555-0101\"}''
      then Some (PDict [(''@type'', PStr ''Place''), (''name'', PStr ''Avalon''),
                        (''telephone'', PStr ''623-555-0101'')])
      else if s = ''{\"@type\": \"Organization\", \"name\": \"Avalon Estates\", \"description\": \"Homes\"}''
      then Some (PDict [(''@type'', PStr ''Organization''), (''name'', PStr ''Avalon Estates''),
                        (''description'', PStr ''Homes'')])
      else if s = ''{\"@type\": \"Residence\", \"image\": [\"/a.jpg\", \"/b.jpg\"]}''
      then Some (PDict [(''@type'', PStr ''Residence''),
                        (''image'', PList [PStr ''/a.jpg'', PStr ''/b.jpg''])])
      else if s = ''{\"@type\": \"Residence\", \"image\": \"/a.jpg\"}''
      then Some (PDict [(''@type'', PStr ''Residence''), (''image'', PStr ''/a.jpg'')])
      else if s = ''{\"@type\": \"Offer\", \"name\": \"Sale\"}''
      then Some (PDict [(''@type'', PStr ''Offer''), (''name'', PStr ''Sale'')])
      else None)"

definition place_block :: node where
  "place_block = ld_json ''{\"@type\": \"Place\", \"name\": \"Avalon\", \"telephone\": \"623-555-0101\"}''"

definition org_block :: node where
  "org_block =
     ld_json ''{\"@type\": \"Organization\", \"name\": \"Avalon Estates\", \"description\": \"Homes\"}''"

definition broken_block :: node where
  "broken_block = ld_json ''{\"@type\": \"Place\", \"name\": ''"

definition blocks_doc :: node where
  "blocks_doc = document [Elem ''head'' [] [] [place_block, broken_block, org_block]]"


text \<open>A listing with one card, and the detail page behind its link.\<close>

definition lot12_card :: node where
  "lot12_card =
     Elem ''div'' [''modelCardWrap__adjust'', ''ModelCard_modelCardContainer__lXz5R''] []
       [Elem ''a'' [''ModelCard_modelCardContainer__lXz5R''] [(''href'', ''/homes/lot-12'')]
          [Elem ''h4'' [''ModelCard_modelName__XzUo2''] [] [Text ''Lot 12''],
           Elem ''p'' [''tracking_bedRange''] [] [Text ''3''],
           Elem ''p'' [''tracking_bathRange''] [] [Text ''2''],
           Elem ''p'' [''tracking_sqftRange''] [] [Text ''1,250'']]]"

definition listing_doc :: node where
  "listing_doc = document [lot12_card]"


definition one_image_detail :: node where
  "one_image_detail =
     document
       [ld_json ''{\"@type\": \"Residence\", \"image\": \"/a.jpg\"}'',
        Elem ''h1'' [] [] [Text ''The Aspen''],
        Elem ''img'' [] [(''src'', ''/a.jpg'')] [],
        Elem ''img'' [] [(''src'', ''/b.jpg'')] [],
        Elem ''img'' [] [(''src'', ''/b.jpg'')] [],
        Elem ''img'' [] [(''src'', ''/c.jpg'')] []]"

text \<open>A browser that always loads the given page, and one that fails twice first.\<close>

definition serving :: "node \<Rightarrow> env" where
  "serving d =
     \<lparr>json_loads = example_loads, py_format = (\<lambda>v. ''?''), now = ''2025-01-01T00:00:00.000000'',
      attempts = (\<lambda>t url wait_class. \<lparr>setup_driver = Ready, page = Some d\<rparr>)\<rparr>"

definition flaky :: "node \<Rightarrow> env" where
  "flaky d =
     \<lparr>json_loads = example_loads, py_format = (\<lambda>v. ''?''), now = ''2025-01-01T00:00:00.000000'',
      attempts = (\<lambda>t url wait_class.
         \<lparr>setup_driver = Ready, page = (if t < 2 then None else Some d)\<rparr>)\<rparr>"

definition failing :: env where
  "failing =
     \<lparr>json_loads = example_loads, py_format = (\<lambda>v. ''?''), now = ''2025-01-01T00:00:00.000000'',
      attempts = (\<lambda>t url wait_class. \<lparr>setup_driver = Ready, page = None\<rparr>)\<rparr>"

definition no_browser :: env where
  "no_browser =
     \<lparr>json_loads = example_loads, py_format = (\<lambda>v. ''?''), now = ''2025-01-01T00:00:00.000000'',
      attempts = (\<lambda>t url wait_class. \<lparr>setup_driver = Broken False, page = None\<rparr>)\<rparr>"

section \<open>Dicts\<close>

lemma map_of_dict_set: "map_of (dict_set d k v) = (map_of d)(k \<mapsto> v)"
  by (induction d) (auto simp: fun_eq_iff)

lemma keys_dict_set: "set (keys (dict_set d k v)) = insert k (set (keys d))"
  by (induction d) (auto simp: keys_def)

lemma dict_get_update:
  "dict_get (dict_update d e) k =
     (case map_of (rev e) k of None \<Rightarrow> dict_get d k | Some v \<Rightarrow> Some v)"
  unfolding dict_update_def dict_get_def
proof (induction e arbitrary: d)
  case Nil
  then show ?case by simp
next
  case (Cons x xs)
  then show ?case
    by (auto simp: map_of_dict_set map_add_def split: option.splits)
qed

lemma keys_dict_update: "set (keys (dict_update d e)) = set (keys d) \<union> set (keys e)"
  unfolding dict_update_def
proof (induction e arbitrary: d)
  case Nil
  then show ?case by (simp add: keys_def)
next
  case (Cons x xs)
  have k: "set (keys (x # xs)) = insert (fst x) (set (keys xs))"
    by (simp add: keys_def)
  have "set (keys (fold (\<lambda>kv acc. dict_set acc (fst kv) (snd kv)) xs (dict_set d (fst x) (snd x))))
        = set (keys (dict_set d (fst x) (snd x))) \<union> set (keys xs)"
    by (rule Cons.IH)
  then show ?case by (auto simp: keys_dict_set k)
qed

lemma map_of_rev_distinct: "distinct (map fst xs) \<Longrightarrow> map_of (rev xs) k = map_of xs k"
proof (induction xs)
  case Nil
  then show ?case by simp
next
  case (Cons x xs)
  then have IH: "map_of (rev xs) k = map_of xs k" and nin: "fst x \<notin> fst ` set xs"
    by auto
  from nin have none: "map_of xs (fst x) = None"
    by (simp add: map_of_eq_None_iff)
  show ?case
  proof (cases "k = fst x")
    case True
    then show ?thesis using IH none by (cases x) (simp add: map_add_def)
  next
    case False
    then show ?thesis using IH by (cases x) (auto simp: map_add_def split: option.splits)
  qed
qed

lemma set_map_filter: "set (List.map_filter f xs) = {y. \<exists>x \<in> set xs. f x = Some y}"
  by (induction xs) (auto split: option.splits)

section \<open>Merging the structured metadata\<close>

lemma merge_blocks_Nil: "merge_blocks env [] d = d"
  by (simp add: merge_blocks_def)

lemma merge_blocks_Cons:
  "merge_blocks env (s # ss) d =
     merge_blocks env ss (case accepted env s of None \<Rightarrow> d | Some b \<Rightarrow> dict_update d b)"
  by (simp add: merge_blocks_def)

lemma merge_blocks_append:
  "merge_blocks env (xs @ ys) d = merge_blocks env ys (merge_blocks env xs d)"
  by (simp add: merge_blocks_def)

lemma merge_blocks_fold:
  "merge_blocks env ss d =
     fold (\<lambda>b acc. dict_update acc b) (List.map_filter (accepted env) ss) d"
  by (induction ss arbitrary: d)
     (auto simp: merge_blocks_Nil merge_blocks_Cons split: option.splits)

lemma keys_merge_blocks:
  "set (keys (merge_blocks env ss d)) =
     set (keys d) \<union> (\<Union>b \<in> set (List.map_filter (accepted env) ss). set (keys b))"
  by (induction ss arbitrary: d)
     (auto simp: merge_blocks_Nil merge_blocks_Cons keys_dict_update split: option.splits)

lemma dict_get_merge_later:
  "(\<forall>t \<in> set ys. \<forall>c. accepted env t = Some c \<longrightarrow> k \<notin> set (keys c)) \<Longrightarrow>
     dict_get (merge_blocks env ys d) k = dict_get d k"
proof (induction ys arbitrary: d)
  case Nil
  then show ?case by (simp add: merge_blocks_Nil)
next
  case (Cons y ys)
  show ?case
  proof (cases "accepted env y")
    case None
    with Cons show ?thesis by (simp add: merge_blocks_Cons)
  next
    case (Some c)
    with Cons.prems have "k \<notin> set (keys c)" by simp
    then have "map_of (rev c) k = None"
      by (simp add: map_of_eq_None_iff keys_def)
    with Cons Some show ?thesis
      by (simp add: merge_blocks_Cons dict_get_update)
  qed
qed

lemma skip_rejected:
  "accepted env m = None \<Longrightarrow> merge_blocks env (xs @ m # ys) d = merge_blocks env (xs @ ys) d"
  by (simp add: merge_blocks_append merge_blocks_Cons)

lemma last_write_wins:
  assumes "accepted env s = Some b" and "distinct (keys b)" and "dict_get b k = Some v"
    and "\<forall>t \<in> set ys. \<forall>c. accepted env t = Some c \<longrightarrow> k \<notin> set (keys c)"
  shows "dict_get (merge_blocks env (xs @ s # ys) d) k = Some v"
proof -
  have "map_of (rev b) k = Some v"
    using assms(2,3) by (simp add: map_of_rev_distinct keys_def dict_get_def)
  then show ?thesis
    using assms(1,4)
    by (simp add: merge_blocks_append merge_blocks_Cons dict_get_merge_later dict_get_update)
qed

lemma accepted_type:
  "accepted env s = Some b \<Longrightarrow>
     \<exists>t. dict_get b ''@type'' = Some (PStr t) \<and> t \<in> set jsonld_types"
  by (auto simp: accepted_def split: option.splits pyval.splits if_splits)

text \<open>
  C6. \<^verbatim>\<open>extract_jsonld_data\<close> merges, in document order, exactly the blocks that parse as
  a dict whose \<^verbatim>\<open>@type\<close> is one of the five allowed; every key of such a block is a key
  of the result; a block that is rejected (it does not parse, or is not allowed) can be
  taken out of the document without changing the result; and a key holds the value of
  the last accepted block that has it.
\<close>

theorem extract_jsonld_data_merge:
  "extract_jsonld_data env soup =
     fold (\<lambda>b acc. dict_update acc b)
       (List.map_filter (accepted env) (find_all ld_script soup)) []
   \<and> (accepted env s = Some b \<longrightarrow>
        (\<exists>t. dict_get b ''@type'' = Some (PStr t) \<and> t \<in> set jsonld_types))
   \<and> (s \<in> set (find_all ld_script soup) \<and> accepted env s = Some b \<longrightarrow>
        set (keys b) \<subseteq> set (keys (extract_jsonld_data env soup)))
   \<and> (find_all ld_script soup = xs @ m # ys \<and> accepted env m = None \<longrightarrow>
        extract_jsonld_data env soup = merge_blocks env (xs @ ys) [])
   \<and> (find_all ld_script soup = pre @ s # post \<and> accepted env s = Some b \<and>
        distinct (keys b) \<and> dict_get b k = Some v \<and>
        (\<forall>t \<in> set post. \<forall>c. accepted env t = Some c \<longrightarrow> k \<notin> set (keys c)) \<longrightarrow>
        dict_get (extract_jsonld_data env soup) k = Some v)"
proof (intro conjI impI)
  show "extract_jsonld_data env soup =
     fold (\<lambda>b acc. dict_update acc b)
       (List.map_filter (accepted env) (find_all ld_script soup)) []"
    by (simp add: extract_jsonld_data_def merge_blocks_fold)
next
  assume "accepted env s = Some b"
  then show "\<exists>t. dict_get b ''@type'' = Some (PStr t) \<and> t \<in> set jsonld_types"
    by (rule accepted_type)
next
  assume "s \<in> set (find_all ld_script soup) \<and> accepted env s = Some b"
  then have "b \<in> set (List.map_filter (accepted env) (find_all ld_script soup))"
    by (auto simp: set_map_filter)
  then show "set (keys b) \<subseteq> set (keys (extract_jsonld_data env soup))"
    by (auto simp: extract_jsonld_data_def keys_merge_blocks)
next
  assume "find_all ld_script soup = xs @ m # ys \<and> accepted env m = None"
  then show "extract_jsonld_data env soup = merge_blocks env (xs @ ys) []"
    by (simp add: extract_jsonld_data_def skip_rejected)
next
  assume a: "find_all ld_script soup = pre @ s # post \<and> accepted env s = Some b \<and>
        distinct (keys b) \<and> dict_get b k = Some v \<and>
        (\<forall>t \<in> set post. \<forall>c. accepted env t = Some c \<longrightarrow> k \<notin> set (keys c))"
  then have "dict_get (merge_blocks env (pre @ s # post) []) k = Some v"
    by (intro last_write_wins) auto
  with a show "dict_get (extract_jsonld_data env soup) k = Some v"
    by (simp add: extract_jsonld_data_def)
qed

theorem extract_jsonld_data_merge_witness:
  "extract_jsonld_data (serving empty_doc) blocks_doc =
     merge_blocks (serving empty_doc) ([place_block] @ [org_block]) []
   \<and> dict_get (extract_jsonld_data (serving empty_doc) blocks_doc) ''name''
       = Some (PStr ''Avalon Estates'')
   \<and> set [''@type'', ''name'', ''telephone'']
       \<subseteq> set (keys (extract_jsonld_data (serving empty_doc) blocks_doc))"
proof -
  let ?env = "serving empty_doc"
  let ?place = "[(''@type'', PStr ''Place''), (''name'', PStr ''Avalon''),
                 (''telephone'', PStr ''623-555-0101'')]"
  let ?org = "[(''@type'', PStr ''Organization''), (''name'', PStr ''Avalon Estates''),
               (''description'', PStr ''Homes'')]"
  have scripts: "find_all ld_script blocks_doc = [place_block] @ broken_block # [org_block]"
    by code_simp
  have scripts': "find_all ld_script blocks_doc = [place_block, broken_block] @ org_block # []"
    by code_simp
  have broken: "accepted ?env broken_block = None"
    by code_simp
  have place: "accepted ?env place_block = Some ?place"
    by code_simp
  have org: "accepted ?env org_block = Some ?org"
    by code_simp
  have mem: "place_block \<in> set (find_all ld_script blocks_doc)"
    by (simp add: scripts)
  have dist: "distinct (keys ?org)"
    by (simp add: keys_def)
  have name: "dict_get ?org ''name'' = Some (PStr ''Avalon Estates'')"
    by (simp add: dict_get_def)
  have keys: "keys ?place = [''@type'', ''name'', ''telephone'']"
    by (simp add: keys_def)
  have skip: "extract_jsonld_data ?env blocks_doc = merge_blocks ?env ([place_block] @ [org_block]) []"
    using extract_jsonld_data_merge[where env = ?env and soup = blocks_doc
        and xs = "[place_block]" and m = broken_block and ys = "[org_block]"]
      scripts broken by blast
  have wins: "dict_get (extract_jsonld_data ?env blocks_doc) ''name'' = Some (PStr ''Avalon Estates'')"
    by (rule extract_jsonld_data_merge[where env = ?env and soup = blocks_doc
          and s = org_block and b = ?org and pre = "[place_block, broken_block]" and post = "[]"
          and k = "''name''" and v = "PStr ''Avalon Estates''",
          THEN conjunct2, THEN conjunct2, THEN conjunct2, THEN conjunct2, THEN mp])
       (simp add: scripts' org dist name)
  have sub: "set (keys ?place) \<subseteq> set (keys (extract_jsonld_data ?env blocks_doc))"
    using extract_jsonld_data_merge[where env = ?env and soup = blocks_doc
        and s = place_block and b = ?place]
      mem place by blast
  from skip wins sub keys show ?thesis by simp
qed

section \<open>Square footage\<close>

text \<open>
  C4. What \<^verbatim>\<open>extract_sqft_range\<close> does with the two fragments of the claim: in
  \<^verbatim>\<open>1250 sqft\<close> the pattern \<^verbatim>\<open>(\d{1,3}(?:,\d{3})*)\<close> matches the first three digits only,
  so the value parsed is 125, while \<^verbatim>\<open>1,250 sqft\<close> gives 1250.
\<close>

theorem extract_sqft_range_unseparated:
  "re_search sqft_num_re ''1250 sqft'' = Some ''125''
   \<and> extract_sqft_range sqft_plain_doc = PStr ''125 - 125''
   \<and> re_search sqft_num_re ''1,250 sqft'' = Some ''1,250''
   \<and> extract_sqft_range sqft_comma_doc = PStr ''1,250 - 1,250''"
  by code_simp

section \<open>Beds and baths of a homesite\<close>

text \<open>
  C5. What \<^verbatim>\<open>extract_homesites\<close> does with a card whose bed text is \<^verbatim>\<open>3\<close> and whose bath
  text is \<^verbatim>\<open>2\<close>: \<^verbatim>\<open>baths\<close> is the integer 2, \<^verbatim>\<open>beds\<close> is the string as scraped.
\<close>

theorem extract_homesites_beds_string:
  "column ''beds'' (fst (extract_homesites (serving empty_doc) listing_doc fresh))
     = [Some (PStr ''3'')]
   \<and> column ''baths'' (fst (extract_homesites (serving empty_doc) listing_doc fresh))
     = [Some (PInt 2)]"
  by code_simp

section \<open>Extractors on a document without the marker\<close>




section \<open>The retry protocol\<close>

lemma upt_max: "[0..<max_retries] = [0, 1, 2]"
  by code_simp

lemma retry_loop_succeeds:
  assumes "k < 3"
    and "\<forall>i<k. page (attempts env (clock w + i) url wc) = None"
    and "page (attempts env (clock w + k) url wc) = Some soup"
    and "\<forall>i\<le>k. setup_driver (attempts env (clock w + i) url wc) = Ready"
  shows "fst (retry_loop bk env url wc [0, 1, 2] w) = Some soup \<and>
         log (snd (retry_loop bk env url wc [0, 1, 2] w)) =
           log w @ (if driver w then [] else [Setup]) @
           concat (map (\<lambda>i. [Sleep (bk i), Quit, Setup]) [0..<k])"
proof -
  consider "k = 0" | "k = 1" | "k = 2" using assms(1) by linarith
  then show ?thesis
  proof cases
    case 1
    with assms(3,4) show ?thesis by (simp add: Let_def max_retries_def)
  next
    case 2
    have p0: "page (attempts env (clock w) url wc) = None" using assms(2) 2 by simp
    have p1: "page (attempts env (Suc (clock w)) url wc) = Some soup" using assms(3) 2 by simp
    have s0: "setup_driver (attempts env (clock w) url wc) = Ready"
      using assms(4)[rule_format, of 0] by simp
    have s1: "setup_driver (attempts env (Suc (clock w)) url wc) = Ready"
      using assms(4)[rule_format, of 1] 2 by simp
    show ?thesis using 2 p0 p1 s0 s1 by (simp add: Let_def max_retries_def)
  next
    case 3
    have p0: "page (attempts env (clock w) url wc) = None"
      using assms(2)[rule_format, of 0] 3 by simp
    have p1: "page (attempts env (Suc (clock w)) url wc) = None"
      using assms(2)[rule_format, of 1] 3 by simp
    have p2: "page (attempts env (Suc (Suc (clock w))) url wc) = Some soup" using assms(3) 3 by simp
    have s0: "setup_driver (attempts env (clock w) url wc) = Ready"
      using assms(4)[rule_format, of 0] by simp
    have s1: "setup_driver (attempts env (Suc (clock w)) url wc) = Ready"
      using assms(4)[rule_format, of 1] 3 by simp
    have s2: "setup_driver (attempts env (Suc (Suc (clock w))) url wc) = Ready"
      using assms(4)[rule_format, of 2] 3 by simp
    have u: "[0..<2] = [0, Suc 0]" by (simp add: upt_rec)
    show ?thesis using 3 p0 p1 p2 s0 s1 s2 u by (simp add: Let_def max_retries_def)
  qed
qed

lemma retry_loop_fails:
  assumes "\<forall>i<3. page (attempts env (clock w + i) url wc) = None"
  shows "fst (retry_loop bk env url wc [0, 1, 2] w) = None"
proof -
  have p0: "page (attempts env (clock w) url wc) = None"
    using assms[rule_format, of 0] by simp
  have p1: "page (attempts env (Suc (clock w)) url wc) = None"
    using assms[rule_format, of 1] by simp
  have p2: "page (attempts env (Suc (Suc (clock w))) url wc) = None"
    using assms[rule_format, of 2] by simp
  show ?thesis using p0 p1 p2 by (simp add: Let_def max_retries_def)
qed

lemma retry_loop_no_session:
  assumes "j < 3"
    and "\<forall>i<j. page (attempts env (clock w + i) url wc) = None
               \<and> setup_driver (attempts env (clock w + i) url wc) = Ready"
    and "setup_driver (attempts env (clock w + j) url wc) \<noteq> Ready"
    and "j = 0 \<longrightarrow> \<not> driver w"
  shows "fst (retry_loop bk env url wc [0, 1, 2] w) = None"
proof -
  consider "j = 0" | "j = 1" | "j = 2" using assms(1) by linarith
  then show ?thesis
  proof cases
    case 1
    with assms(3,4) show ?thesis by (simp add: Let_def)
  next
    case 2
    have p0: "page (attempts env (clock w) url wc) = None"
      and s0: "setup_driver (attempts env (clock w) url wc) = Ready"
      using assms(2)[rule_format, of 0] 2 by simp_all
    have s1: "setup_driver (attempts env (Suc (clock w)) url wc) \<noteq> Ready"
      using assms(3) 2 by simp
    show ?thesis using p0 s0 s1 by (simp add: Let_def max_retries_def)
  next
    case 3
    have p0: "page (attempts env (clock w) url wc) = None"
      and s0: "setup_driver (attempts env (clock w) url wc) = Ready"
      using assms(2)[rule_format, of 0] 3 by simp_all
    have p1: "page (attempts env (Suc (clock w)) url wc) = None"
      and s1: "setup_driver (attempts env (Suc (clock w)) url wc) = Ready"
      using assms(2)[rule_format, of 1] 3 by simp_all
    have s2: "setup_driver (attempts env (Suc (Suc (clock w))) url wc) \<noteq> Ready"
      using assms(3) 3 by simp
    show ?thesis using p0 s0 p1 s1 s2 by (simp add: Let_def max_retries_def)
  qed
qed

lemma trace_counts:
  "quits (pre @ concat (map (\<lambda>i. [Sleep (bk i), Quit, Setup]) [0..<k])) = quits pre + k
   \<and> setups (pre @ concat (map (\<lambda>i. [Sleep (bk i), Quit, Setup]) [0..<k])) = setups pre + k
   \<and> delays (pre @ concat (map (\<lambda>i. [Sleep (bk i), Quit, Setup]) [0..<k])) = delays pre @ map bk [0..<k]"
  by (induction k) (simp_all add: quits_def setups_def delays_def)

lemma increasing_delays: "k < 3 \<Longrightarrow> sorted_wrt (<) (map (\<lambda>i. retry_delay * (i + 1)) [0..<k])"
proof -
  assume "k < 3"
  then consider "k = 0" | "k = 1" | "k = 2" by linarith
  then show ?thesis
    by cases (simp_all add: retry_delay_def upt_rec)
qed

text \<open>
  C2 (as amended). If the first \<open>k < 3\<close> attempts fail, attempt \<open>k + 1\<close> yields a document
  and a session can be created whenever one is needed, then both \<^verbatim>\<open>_safe_get_page\<close> return
  that document after exactly \<open>k\<close> quits and \<open>k\<close> re-creations of the session (one more
  creation when there was no session at the start). In the detail scraper the sleeps
  before the retries are \<open>retry_delay * 1, ..., retry_delay * k\<close>, strictly increasing; in
  the links scraper each sleep is \<open>retry_delay\<close>. If all three attempts fail, or an
  attempt finds no session and cannot create one, the result is \<^verbatim>\<open>None\<close>.
\<close>

theorem safe_get_page_retry:
  "(k < max_retries
      \<and> (\<forall>i<k. page (attempts env (clock w + i) url wc) = None)
      \<and> page (attempts env (clock w + k) url wc) = Some soup
      \<and> (\<forall>i\<le>k. setup_driver (attempts env (clock w + i) url wc) = Ready)
     \<longrightarrow> fst (safe_get_page env url wc w) = Some soup
        \<and> (\<exists>new. log (snd (safe_get_page env url wc w)) = log w @ new
              \<and> quits new = k \<and> setups new = k + (if driver w then 0 else 1)
              \<and> delays new = map (\<lambda>i. retry_delay * (i + 1)) [0..<k]
              \<and> sorted_wrt (<) (delays new))
        \<and> fst (links_safe_get_page env url wc w) = Some soup
        \<and> (\<exists>new. log (snd (links_safe_get_page env url wc w)) = log w @ new
              \<and> quits new = k \<and> setups new = k + (if driver w then 0 else 1)
              \<and> delays new = replicate k retry_delay))
   \<and> ((\<forall>i<max_retries. page (attempts env (clock w + i) url wc) = None)
        \<longrightarrow> fst (safe_get_page env url wc w) = None
          \<and> fst (links_safe_get_page env url wc w) = None)
   \<and> (j < max_retries
        \<and> (\<forall>i<j. page (attempts env (clock w + i) url wc) = None
                  \<and> setup_driver (attempts env (clock w + i) url wc) = Ready)
        \<and> setup_driver (attempts env (clock w + j) url wc) \<noteq> Ready
        \<and> (j = 0 \<longrightarrow> \<not> driver w)
        \<longrightarrow> fst (safe_get_page env url wc w) = None
          \<and> fst (links_safe_get_page env url wc w) = None)"
proof (intro conjI impI)
  assume h: "k < max_retries
      \<and> (\<forall>i<k. page (attempts env (clock w + i) url wc) = None)
      \<and> page (attempts env (clock w + k) url wc) = Some soup
      \<and> (\<forall>i\<le>k. setup_driver (attempts env (clock w + i) url wc) = Ready)"
  then have k: "k < 3" by (simp add: max_retries_def)
  let ?pre = "if driver w then [] else [Setup]"
  have pre: "quits ?pre = 0" "setups ?pre = (if driver w then 0 else 1)" "delays ?pre = []"
    by (simp_all add: quits_def setups_def delays_def)
  note page = retry_loop_succeeds[where bk = "\<lambda>attempt. retry_delay * (attempt + 1)", OF k
      h[THEN conjunct2, THEN conjunct1] h[THEN conjunct2, THEN conjunct2, THEN conjunct1]
      h[THEN conjunct2, THEN conjunct2, THEN conjunct2]]
  note links = retry_loop_succeeds[where bk = "\<lambda>attempt. retry_delay", OF k
      h[THEN conjunct2, THEN conjunct1] h[THEN conjunct2, THEN conjunct2, THEN conjunct1]
      h[THEN conjunct2, THEN conjunct2, THEN conjunct2]]
  show "fst (safe_get_page env url wc w) = Some soup"
    using page by (simp add: safe_get_page_def upt_max)
  show "fst (links_safe_get_page env url wc w) = Some soup"
    using links by (simp add: links_safe_get_page_def upt_max)
  let ?new = "?pre @ concat (map (\<lambda>i. [Sleep (retry_delay * (i + 1)), Quit, Setup]) [0..<k])"
  have "log (snd (safe_get_page env url wc w)) = log w @ ?new"
    using page by (simp add: safe_get_page_def upt_max)
  moreover have "quits ?new = k" "setups ?new = k + (if driver w then 0 else 1)"
    "delays ?new = map (\<lambda>i. retry_delay * (i + 1)) [0..<k]"
    using trace_counts[where pre = ?pre and bk = "\<lambda>i. retry_delay * (i + 1)" and k = k] pre
    by simp_all
  moreover have "sorted_wrt (<) (map (\<lambda>i. retry_delay * (i + 1)) [0..<k])"
    using k by (rule increasing_delays)
  ultimately show "\<exists>new. log (snd (safe_get_page env url wc w)) = log w @ new
              \<and> quits new = k \<and> setups new = k + (if driver w then 0 else 1)
              \<and> delays new = map (\<lambda>i. retry_delay * (i + 1)) [0..<k]
              \<and> sorted_wrt (<) (delays new)"
    by (intro exI[of _ ?new]) simp
  let ?new' = "?pre @ concat (map (\<lambda>i. [Sleep retry_delay, Quit, Setup]) [0..<k])"
  have "log (snd (links_safe_get_page env url wc w)) = log w @ ?new'"
    using links by (simp add: links_safe_get_page_def upt_max)
  moreover have "quits ?new' = k" "setups ?new' = k + (if driver w then 0 else 1)"
    "delays ?new' = replicate k retry_delay"
    using trace_counts[where pre = ?pre and bk = "\<lambda>i. retry_delay" and k = k] pre
    by (simp_all add: map_replicate_const)
  ultimately show "\<exists>new. log (snd (links_safe_get_page env url wc w)) = log w @ new
              \<and> quits new = k \<and> setups new = k + (if driver w then 0 else 1)
              \<and> delays new = replicate k retry_delay"
    by (intro exI[of _ ?new']) simp
next
  assume "\<forall>i<max_retries. page (attempts env (clock w + i) url wc) = None"
  then have a: "\<forall>i<3. page (attempts env (clock w + i) url wc) = None"
    by (simp add: max_retries_def)
  show "fst (safe_get_page env url wc w) = None"
    using retry_loop_fails[OF a] by (simp add: safe_get_page_def upt_max)
  show "fst (links_safe_get_page env url wc w) = None"
    using retry_loop_fails[OF a] by (simp add: links_safe_get_page_def upt_max)
next
  assume a: "j < max_retries
        \<and> (\<forall>i<j. page (attempts env (clock w + i) url wc) = None
                  \<and> setup_driver (attempts env (clock w + i) url wc) = Ready)
        \<and> setup_driver (attempts env (clock w + j) url wc) \<noteq> Ready
        \<and> (j = 0 \<longrightarrow> \<not> driver w)"
  then have j: "j < 3" by (simp add: max_retries_def)
  note none = retry_loop_no_session[OF j a[THEN conjunct2, THEN conjunct1]
      a[THEN conjunct2, THEN conjunct2, THEN conjunct1]
      a[THEN conjunct2, THEN conjunct2, THEN conjunct2]]
  show "fst (safe_get_page env url wc w) = None"
    using none by (simp add: safe_get_page_def upt_max)
  show "fst (links_safe_get_page env url wc w) = None"
    using none by (simp add: links_safe_get_page_def upt_max)
qed

theorem safe_get_page_retry_witness:
  "fst (safe_get_page (flaky empty_doc) ''u'' ''body'' fresh) = Some empty_doc
   \<and> quits (log (snd (safe_get_page (flaky empty_doc) ''u'' ''body'' fresh))) = 2
   \<and> delays (log (snd (safe_get_page (flaky empty_doc) ''u'' ''body'' fresh))) = [5, 10]
   \<and> delays (log (snd (links_safe_get_page (flaky empty_doc) ''u'' ''body'' fresh))) = [5, 5]
   \<and> fst (safe_get_page failing ''u'' ''body'' fresh) = None
   \<and> fst (safe_get_page no_browser ''u'' ''body'' fresh) = None"
proof -
  have h: "2 < max_retries
      \<and> (\<forall>i<2. page (attempts (flaky empty_doc) (clock fresh + i) ''u'' ''body'') = None)
      \<and> page (attempts (flaky empty_doc) (clock fresh + 2) ''u'' ''body'') = Some empty_doc
      \<and> (\<forall>i\<le>2. setup_driver (attempts (flaky empty_doc) (clock fresh + i) ''u'' ''body'') = Ready)"
    by (simp add: max_retries_def flaky_def fresh_def)
  have f: "\<forall>i<max_retries. page (attempts failing (clock fresh + i) ''u'' ''body'') = None"
    by (simp add: failing_def)
  have l: "log fresh = []" by (simp add: fresh_def)
  have u: "map (\<lambda>i. retry_delay * (i + 1)) [0..<2] = [5, 10]" "replicate 2 retry_delay = [5, 5]"
    by (simp_all add: retry_delay_def upt_rec numeral_2_eq_2)
  from safe_get_page_retry[where env = "flaky empty_doc" and w = fresh and k = 2
      and url = "''u''" and wc = "''body''" and soup = empty_doc, THEN conjunct1, THEN mp, OF h]
  have "fst (safe_get_page (flaky empty_doc) ''u'' ''body'' fresh) = Some empty_doc
   \<and> quits (log (snd (safe_get_page (flaky empty_doc) ''u'' ''body'' fresh))) = 2
   \<and> delays (log (snd (safe_get_page (flaky empty_doc) ''u'' ''body'' fresh))) = [5, 10]
   \<and> delays (log (snd (links_safe_get_page (flaky empty_doc) ''u'' ''body'' fresh))) = [5, 5]"
    using l u by auto
  moreover from safe_get_page_retry[where env = failing and w = fresh
      and url = "''u''" and wc = "''body''", THEN conjunct2, THEN conjunct1, THEN mp, OF f]
  have "fst (safe_get_page failing ''u'' ''body'' fresh) = None" by simp
  moreover have b: "0 < max_retries
        \<and> (\<forall>i<0. page (attempts no_browser (clock fresh + i) ''u'' ''body'') = None
                  \<and> setup_driver (attempts no_browser (clock fresh + i) ''u'' ''body'') = Ready)
        \<and> setup_driver (attempts no_browser (clock fresh + 0) ''u'' ''body'') \<noteq> Ready
        \<and> (0 = (0::nat) \<longrightarrow> \<not> driver fresh)"
    by (simp add: max_retries_def no_browser_def fresh_def)
  from safe_get_page_retry[where env = no_browser and w = fresh and j = 0
      and url = "''u''" and wc = "''body''", THEN conjunct2, THEN conjunct2, THEN mp, OF b]
  have "fst (safe_get_page no_browser ''u'' ''body'' fresh) = None" by simp
  ultimately show ?thesis by simp
qed

text \<open>
  C2 as stated fails for the links scraper: failing twice and then succeeding, it sleeps
  5 and 5 seconds, which is not strictly increasing.
\<close>

theorem links_safe_get_page_constant_delay:
  "fst (links_safe_get_page (flaky empty_doc) ''u'' ''body'' fresh) = Some empty_doc
   \<and> delays (log (snd (links_safe_get_page (flaky empty_doc) ''u'' ''body'' fresh))) = [5, 5]
   \<and> \<not> sorted_wrt (<) (delays (log (snd (links_safe_get_page (flaky empty_doc) ''u'' ''body'' fresh))))"
  by code_simp

section \<open>Address and description\<close>

lemma node_string_text:
  "node_string n = Some s \<Longrightarrow> get_text n \<noteq> [] \<Longrightarrow> get_text n = s"
  by (induction n rule: node_string.induct) auto

lemma strip_Nil: "strip [] = []"
  by (simp add: strip_def strip_with_def)

lemma find_first_Some:
  "find_first p n = Some x \<Longrightarrow> x \<in> set (descendants n) \<and> p x"
  unfolding find_first_def find_all_def
  by (auto split: list.splits dest: filter_eq_ConsD)

lemma find_first_None:
  "(find_first p n = None) = (\<forall>x \<in> set (descendants n). \<not> p x)"
  unfolding find_first_def find_all_def
  by (auto split: list.splits simp: filter_empty_conv filter_eq_Cons_iff)

lemma tag_string_found:
  assumes "find_first (tag_with_string t r) soup = Some e" and "strip (get_text e) \<noteq> []"
  shows "e \<in> set (find_all (is_tag t) soup) \<and> re_found r (get_text e)"
proof -
  from assms(1) have mem: "e \<in> set (descendants soup)" and tws: "tag_with_string t r e"
    by (auto dest: find_first_Some)
  from assms(2) have ne: "get_text e \<noteq> []" using strip_Nil by auto
  from tws obtain s where s: "node_string e = Some s" "re_found r s" "is_tag t e"
    by (auto simp: tag_with_string_def split: option.splits)
  from s(1) ne have "get_text e = s" by (rule node_string_text)
  with s mem show ?thesis by (simp add: find_all_def)
qed

text \<open>
  C9. \<^verbatim>\<open>extract_address\<close> and \<^verbatim>\<open>extract_description\<close> return a string, and a non-empty
  one only when some \<^verbatim>\<open>div\<close> of the document has a text in which the literal pattern is
  found (\<^verbatim>\<open>Goodyear, AZ\<close> and five digits; the phrase about the master-planned community);
  on a document where no \<^verbatim>\<open>div\<close> has such a text both return the empty string.
\<close>

theorem address_description_literals:
  "(\<exists>s. extract_address soup = PStr s) \<and> (\<exists>s. extract_description soup = PStr s)
   \<and> (extract_address soup \<noteq> PStr [] \<longrightarrow>
        (\<exists>d \<in> set (find_all (is_tag ''div'') soup). re_found address_re (get_text d)))
   \<and> (extract_description soup \<noteq> PStr [] \<longrightarrow>
        (\<exists>d \<in> set (find_all (is_tag ''div'') soup). re_found description_re (get_text d)))
   \<and> ((\<forall>d \<in> set (find_all (is_tag ''div'') soup). \<not> re_found address_re (get_text d)) \<longrightarrow>
        extract_address soup = PStr [])
   \<and> ((\<forall>d \<in> set (find_all (is_tag ''div'') soup). \<not> re_found description_re (get_text d)) \<longrightarrow>
        extract_description soup = PStr [])"
proof -
  have a: "\<exists>d \<in> set (find_all (is_tag ''div'') soup). re_found address_re (get_text d)"
    if "extract_address soup \<noteq> PStr []"
    using that tag_string_found[where t = "''div''" and r = address_re and soup = soup]
    by (auto simp: extract_address_def split: option.splits)
  have d: "\<exists>d \<in> set (find_all (is_tag ''div'') soup). re_found description_re (get_text d)"
    if "extract_description soup \<noteq> PStr []"
    using that tag_string_found[where t = "''div''" and r = description_re and soup = soup]
    by (auto simp: extract_description_def split: option.splits)
  have s: "\<exists>s. extract_address soup = PStr s" "\<exists>s. extract_description soup = PStr s"
    by (auto simp: extract_address_def extract_description_def split: option.splits)
  from a d s show ?thesis by blast
qed

theorem address_description_literals_witness:
  "extract_address goodyear_doc = PStr ''123 Main St, Goodyear, AZ 85338''
   \<and> list_ex (\<lambda>d. re_found address_re (get_text d)) (find_all (is_tag ''div'') goodyear_doc)
   \<and> extract_address phoenix_doc = PStr [] \<and> extract_description phoenix_doc = PStr []"
proof -
  have g: "extract_address goodyear_doc = PStr ''123 Main St, Goodyear, AZ 85338''"
    by code_simp
  then have ne: "extract_address goodyear_doc \<noteq> PStr []" by simp
  have pa: "\<forall>d \<in> set (find_all (is_tag ''div'') phoenix_doc). \<not> re_found address_re (get_text d)"
    by code_simp
  have pd: "\<forall>d \<in> set (find_all (is_tag ''div'') phoenix_doc). \<not> re_found description_re (get_text d)"
    by code_simp
  note t = address_description_literals[where soup = goodyear_doc]
  note p = address_description_literals[where soup = phoenix_doc]
  from t ne have "list_ex (\<lambda>d. re_found address_re (get_text d)) (find_all (is_tag ''div'') goodyear_doc)"
    unfolding list_ex_iff by blast
  moreover from p pa pd have "extract_address phoenix_doc = PStr [] \<and> extract_description phoenix_doc = PStr []"
    by blast
  ultimately show ?thesis using g by simp
qed

section \<open>The first image of a homesite\<close>

lemma homesite_of_card_image:
  "homesite_of_card env c w = (Some h, w') \<Longrightarrow>
     \<exists>imgs. lookup h [''images''] = Some (PList imgs) \<and>
       lookup h [''image_url''] = Some (case imgs of [] \<Rightarrow> PNone | x # _ \<Rightarrow> x)"
  by (auto simp: homesite_of_card_def Let_def dict_get_def split: option.splits)

lemma homesites_loop_mem:
  "h \<in> set (fst (homesites_loop env cs w)) \<Longrightarrow>
     \<exists>c w1 w2. c \<in> set cs \<and> homesite_of_card env c w1 = (Some h, w2)"
proof (induction cs arbitrary: w)
  case Nil
  then show ?case by simp
next
  case (Cons c cs)
  obtain r w1 where r: "homesite_of_card env c w = (r, w1)" by (cases "homesite_of_card env c w")
  obtain hs w2 where l: "homesites_loop env cs w1 = (hs, w2)" by (cases "homesites_loop env cs w1")
  from Cons.prems r l have "h \<in> set hs \<or> r = Some h"
    by (auto split: option.splits)
  then show ?case
  proof
    assume "h \<in> set hs"
    with l have "h \<in> set (fst (homesites_loop env cs w1))" by simp
    from Cons.IH[OF this] show ?thesis by auto
  next
    assume "r = Some h"
    with r show ?thesis by auto
  qed
qed

text \<open>
  C10. In every record \<^verbatim>\<open>extract_homesites\<close> returns, \<^verbatim>\<open>image_url\<close> is the first element
  of \<^verbatim>\<open>images\<close> when there is one, and \<^verbatim>\<open>None\<close> when \<^verbatim>\<open>images\<close> is empty.
\<close>

theorem extract_homesites_image_url:
  "h \<in> set (fst (extract_homesites env soup w)) \<Longrightarrow>
     \<exists>imgs. lookup h [''images''] = Some (PList imgs) \<and>
       lookup h [''image_url''] = Some (case imgs of [] \<Rightarrow> PNone | x # _ \<Rightarrow> x)"
  unfolding extract_homesites_def
  by (blast dest: homesites_loop_mem homesite_of_card_image)

theorem extract_homesites_image_url_witness:
  "map (\<lambda>h. (lookup h [''image_url''], lookup h [''images'']))
       (fst (extract_homesites (serving one_image_detail) listing_doc fresh))
     = [(Some (PStr ''/a.jpg''), Some (PList [PStr ''/a.jpg'', PStr ''/b.jpg'', PStr ''/c.jpg'']))]
   \<and> map (\<lambda>h. (lookup h [''image_url''], lookup h [''images'']))
       (fst (extract_homesites failing listing_doc fresh)) = [(Some PNone, Some (PList []))]
   \<and> list_all (\<lambda>h. \<exists>imgs. lookup h [''images''] = Some (PList imgs) \<and>
         lookup h [''image_url''] = Some (case imgs of [] \<Rightarrow> PNone | x # _ \<Rightarrow> x))
       (fst (extract_homesites (serving one_image_detail) listing_doc fresh)
        @ fst (extract_homesites failing listing_doc fresh))"
proof -
  have a: "map (\<lambda>h. (lookup h [''image_url''], lookup h [''images'']))
       (fst (extract_homesites (serving one_image_detail) listing_doc fresh))
     = [(Some (PStr ''/a.jpg''), Some (PList [PStr ''/a.jpg'', PStr ''/b.jpg'', PStr ''/c.jpg'']))]"
    by code_simp
  have b: "map (\<lambda>h. (lookup h [''image_url''], lookup h [''images'']))
       (fst (extract_homesites failing listing_doc fresh)) = [(Some PNone, Some (PList []))]"
    by code_simp
  have c: "list_all (\<lambda>h. \<exists>imgs. lookup h [''images''] = Some (PList imgs) \<and>
         lookup h [''image_url''] = Some (case imgs of [] \<Rightarrow> PNone | x # _ \<Rightarrow> x))
       (fst (extract_homesites (serving one_image_detail) listing_doc fresh)
        @ fst (extract_homesites failing listing_doc fresh))"
    unfolding list_all_iff
    using extract_homesites_image_url[where env = "serving one_image_detail" and soup = listing_doc and w = fresh]
      extract_homesites_image_url[where env = failing and soup = listing_doc and w = fresh]
    by auto
  from a b c show ?thesis by simp
qed

section \<open>Shape and sources of the community record\<close>


















section \<open>The images of a homesite\<close>









end
